theory Spec2Isabelle
  imports Complex_Main
begin

section \<open>JavaScript numbers, array reads and dates\<close>

text \<open>
  The scheduler computes with JavaScript numbers. The engine is modelled in exact
  arithmetic first: numbers are reals, rounding is not represented, and neither are
  \<open>NaN\<close> and the infinities. Where JavaScript would produce one of those (a division by
  zero, a read past the end of the weights array used in arithmetic, a negative base under
  a fractional exponent, an overflow) this model has some real value instead. It settles
  the claims about exact values and about the shape of a review. What doubles add beyond
  rounding (overflow to an infinity, and \<open>NaN\<close>) is modelled separately, further down,
  for the functions whose bounds depend on it.
\<close>

definition Math_pow :: "real \<Rightarrow> real \<Rightarrow> real" where
  \<comment> \<open>\<open>Math.pow(x, y)\<close>: \<open>x\<close> to the power \<open>y\<close> for a positive base; for a base
      \<open>\<le> 0\<close> JavaScript has a real result when \<open>y\<close> is an integer (and for \<open>0\<close> to a
      positive power). \<open>0\<close> to a negative power is \<open>Infinity\<close> and a negative base to a
      fractional power is \<open>NaN\<close>: both outside the model.\<close>
  "Math_pow x y =
     (if 0 < x then x powr y
      else if y = of_int \<lfloor>y\<rfloor> then x powi \<lfloor>y\<rfloor>
      else 0)"

definition weight :: "real list \<Rightarrow> real \<Rightarrow> real" where
  \<comment> \<open>\<open>weights[i]\<close> read as a number. The index is a JavaScript number; the read has a
      value when it is a whole number inside the array. Anywhere else JavaScript gives
      \<open>undefined\<close> (\<open>NaN\<close> in arithmetic), which is not a real.\<close>
  "weight ws i =
     (if 0 \<le> i \<and> i = of_int \<lfloor>i\<rfloor> \<and> nat \<lfloor>i\<rfloor> < length ws then ws ! nat \<lfloor>i\<rfloor>
      else undefined)"

definition weight_or :: "real list \<Rightarrow> nat \<Rightarrow> real \<Rightarrow> real" where
  \<comment> \<open>\<open>weights[i] || d\<close>: the default replaces a missing entry and a zero entry.\<close>
  "weight_or ws i d = (if i < length ws \<and> ws ! i \<noteq> 0 then ws ! i else d)"

definition ToNumber :: "real option \<Rightarrow> real" where
  \<comment> \<open>A nullable number used in arithmetic: \<open>null\<close> counts as \<open>0\<close>.\<close>
  "ToNumber v = (case v of None \<Rightarrow> 0 | Some x \<Rightarrow> x)"

definition truthy :: "real option \<Rightarrow> bool" where
  \<comment> \<open>A nullable number used as a condition: \<open>null\<close> and \<open>0\<close> are false.\<close>
  "truthy v = (case v of None \<Rightarrow> False | Some x \<Rightarrow> x \<noteq> 0)"

text \<open>
  A timestamp is a count of milliseconds since the epoch, the time value of a \<open>Date\<close>; the
  ISO string stored in a record is a representation of this count. \<open>new Date(t)\<close> on a
  number keeps the whole milliseconds of \<open>t\<close> (truncating toward zero) and is an invalid
  date beyond 8.64e15 ms; \<open>toISOString\<close> on an invalid date throws \<open>RangeError\<close>.
\<close>

datatype error = RangeError

definition new_Date :: "real \<Rightarrow> int option" where
  "new_Date t =
     (if \<bar>t\<bar> \<le> 8640000000000000 then Some (if 0 \<le> t then \<lfloor>t\<rfloor> else \<lceil>t\<rceil>) else None)"

definition toISOString :: "int option \<Rightarrow> error + int" where
  "toISOString d = (case d of None \<Rightarrow> Inl RangeError | Some t \<Rightarrow> Inr t)"

section \<open>Configuration\<close>

record config =
  version :: string
  weights :: "real list"
  target_retrievability :: real
  maximum_interval_days :: real

definition DEFAULT_CONFIG :: config where
  "DEFAULT_CONFIG =
     \<lparr> version = ''4'',
       weights = [0.4, 0.6, 2.4, 5.8, 4.93, 0.94, 0.86, 0.01, 1.49, 0.14, 0.94, 2.18,
                  0.05, 0.34, 1.26],
       target_retrievability = 0.9,
       maximum_interval_days = 365 \<rparr>"

section \<open>The memory model\<close>

definition retrievability :: "real option \<Rightarrow> real \<Rightarrow> real" where
  "retrievability stability elapsedDays =
     (case stability of
        None \<Rightarrow> 0
      | Some s \<Rightarrow> if s \<le> 0 then 0 else Math_pow (1 + elapsedDays / (9 * s)) (- 1))"

definition nextInterval :: "real option \<Rightarrow> real \<Rightarrow> real" where
  "nextInterval stability targetRetrievability =
     (case stability of
        None \<Rightarrow> 1
      | Some s \<Rightarrow> if s \<le> 0 then 1 else 9 * s * (1 / targetRetrievability - 1))"

definition clamp :: "real \<Rightarrow> real \<Rightarrow> real \<Rightarrow> real" where
  "clamp v lo hi = max lo (min hi v)"

definition initialStability :: "real \<Rightarrow> real list \<Rightarrow> real" where
  "initialStability grade ws = weight ws (grade - 1)"

definition initialDifficulty :: "real \<Rightarrow> real list \<Rightarrow> real" where
  "initialDifficulty grade ws =
     (let d0 = weight ws 4 - weight ws 5 * (grade - 3) in clamp d0 1 10)"

definition updateDifficulty :: "real \<Rightarrow> real \<Rightarrow> real list \<Rightarrow> real" where
  "updateDifficulty currentDifficulty grade ws =
     (let w6 = weight ws 6;
          w7 = weight ws 7;
          meanDifficulty = weight ws 4;
          delta = - w6 * (grade - 3);
          newD = currentDifficulty + delta;
          revertedD = newD + w7 * (meanDifficulty - newD)
      in clamp revertedD 1 10)"

definition updateStabilitySuccess :: "real \<Rightarrow> real \<Rightarrow> real \<Rightarrow> real \<Rightarrow> real list \<Rightarrow> real" where
  "updateStabilitySuccess S D R grade ws =
     (let w8 = weight ws 8;
          w9 = weight ws 9;
          w10 = weight ws 10;
          hardPenalty = (if grade = 2 then weight_or ws 15 1 else 1);
          easyBonus = (if grade = 4 then weight_or ws 16 1 else 1);
          factor = exp w8 * (11 - D) * Math_pow S (- w9) * (exp (w10 * (1 - R)) - 1)
      in S * (1 + factor))"

definition updateStabilityFailure :: "real \<Rightarrow> real \<Rightarrow> real \<Rightarrow> real list \<Rightarrow> real" where
  "updateStabilityFailure S D R ws =
     (let w11 = weight ws 11;
          w12 = weight ws 12;
          w13 = weight ws 13;
          w14 = weight ws 14;
          newStability = w11 * Math_pow D (- w12) * (Math_pow (S + 1) w13 - 1)
                           * exp (w14 * (1 - R))
      in min newStability S)"

section \<open>Scheduling state, topics and the outside world\<close>

datatype tag = New | Learning | Review | Relearning

record fsrs_state =
  state :: tag
  stability :: "real option"
  difficulty :: "real option"
  due :: "int option"
  last_reviewed :: "int option"
  review_count :: nat
  lapses :: nat

definition createDefaultFsrsState :: fsrs_state where
  "createDefaultFsrsState =
     \<lparr> state = New, stability = None, difficulty = None, due = None, last_reviewed = None,
       review_count = 0, lapses = 0 \<rparr>"

record topic_rec =
  topic_id :: "string option"
  topic :: string
  summary :: "string option"
  tags :: "string list"
  timestamp :: int
  fsrs :: "fsrs_state option"

text \<open>
  What the functions read and write besides their arguments: the system clock (each
  \<open>new Date()\<close> takes the next reading), the configuration file, the topics file, the
  backup directory and the source of random UUIDs.
\<close>

record world =
  clock :: "nat \<Rightarrow> int"
  clock_reads :: nat
  config_file :: "config option"
  topics_file :: "topic_rec list"
  backups :: "(int \<times> topic_rec list) list"
  uuids :: "nat \<Rightarrow> string"
  uuids_drawn :: nat

definition Date_now :: "world \<Rightarrow> int \<times> world" where
  \<comment> \<open>\<open>new Date()\<close>\<close>
  "Date_now w = (clock w (clock_reads w), w\<lparr>clock_reads := Suc (clock_reads w)\<rparr>)"

definition randomUUID :: "world \<Rightarrow> string \<times> world" where
  "randomUUID w = (uuids w (uuids_drawn w), w\<lparr>uuids_drawn := Suc (uuids_drawn w)\<rparr>)"

definition loadConfig :: "world \<Rightarrow> config \<times> world" where
  \<comment> \<open>\<open>config_file\<close> is \<open>None\<close> when the file does not exist, else its parsed contents.\<close>
  "loadConfig w =
     (case config_file w of
        None \<Rightarrow> (DEFAULT_CONFIG, w\<lparr>config_file := Some DEFAULT_CONFIG\<rparr>)
      | Some c \<Rightarrow> (c, w))"

definition or0 :: "nat \<Rightarrow> nat" where
  \<comment> \<open>\<open>n || 0\<close> on a counter\<close>
  "or0 n = (if n = 0 then 0 else n)"

section \<open>The review state machine\<close>

definition processReview ::
  "world \<Rightarrow> fsrs_state \<Rightarrow> real \<Rightarrow> config option \<Rightarrow> (error + fsrs_state) \<times> world" where
  "processReview w currentFsrs grade config0 =
     (let (config, w1) = (case config0 of None \<Rightarrow> loadConfig w | Some c \<Rightarrow> (c, w));
          ws = weights config;
          targetR = target_retrievability config;
          maxInterval = maximum_interval_days config;
          (now, w2) = Date_now w1;
          newState0 = currentFsrs
            \<lparr> last_reviewed := Some now,
              review_count := or0 (review_count currentFsrs) + 1 \<rparr>;
          elapsedDays =
            (case last_reviewed currentFsrs of
               None \<Rightarrow> 0
             | Some lastReview \<Rightarrow>
                 (real_of_int now - real_of_int lastReview) / (1000 * 60 * 60 * 24));
          currentR =
            (if truthy (stability currentFsrs)
             then retrievability (stability currentFsrs) elapsedDays else 0);
          newState =
            (if state currentFsrs = New then
               (let ns = newState0
                      \<lparr> stability := Some (initialStability grade ws),
                        difficulty := Some (initialDifficulty grade ws) \<rparr>
                in if grade = 1 then ns\<lparr>state := Learning, lapses := 1\<rparr>
                   else ns\<lparr>state := Review\<rparr>)
             else
               (let ns = newState0
                      \<lparr> difficulty :=
                          Some (updateDifficulty (ToNumber (difficulty currentFsrs)) grade ws) \<rparr>
                in if grade = 1 then
                     ns\<lparr> stability :=
                           Some (updateStabilityFailure (ToNumber (stability currentFsrs))
                                   (ToNumber (difficulty currentFsrs)) currentR ws),
                         lapses := or0 (lapses currentFsrs) + 1,
                         state := Relearning \<rparr>
                   else
                     ns\<lparr> stability :=
                           Some (updateStabilitySuccess (ToNumber (stability currentFsrs))
                                   (ToNumber (difficulty currentFsrs)) currentR grade ws),
                         state := Review \<rparr>));
          interval0 = nextInterval (stability newState) targetR;
          interval1 = min interval0 maxInterval;
          interval = max interval1 1;
          dueDate = new_Date (real_of_int now + interval * 24 * 60 * 60 * 1000)
      in case toISOString dueDate of
           Inl e \<Rightarrow> (Inl e, w2)
         | Inr d \<Rightarrow> (Inr (newState\<lparr>due := Some d\<rparr>), w2))"

section \<open>Priority ranking\<close>

record priority_result =
  priority :: real
  isOverdue :: bool
  res_retrievability :: "real option"
  daysOverdue :: "real option"
  daysUntilDue :: "real option"

definition calculatePriority :: "world \<Rightarrow> topic_rec \<Rightarrow> priority_result \<times> world" where
  "calculatePriority w t =
     (case fsrs t of
        None \<Rightarrow>
          (\<lparr> priority = 0, isOverdue = False, res_retrievability = Some 1,
             daysOverdue = None, daysUntilDue = None \<rparr>, w)
      | Some f \<Rightarrow>
          (let (now, w1) = Date_now w in
           if state f = New then
             (\<lparr> priority = 50, isOverdue = False, res_retrievability = None,
                daysOverdue = None, daysUntilDue = None \<rparr>, w1)
           else
             (case due f of
                None \<Rightarrow>
                  (\<lparr> priority = 50, isOverdue = False, res_retrievability = None,
                     daysOverdue = None, daysUntilDue = None \<rparr>, w1)
              | Some dueDate \<Rightarrow>
                  (let untilDue =
                         (real_of_int dueDate - real_of_int now) / (1000 * 60 * 60 * 24);
                       elapsedDays =
                         (case last_reviewed f of
                            None \<Rightarrow> 0
                          | Some lastReview \<Rightarrow>
                              (real_of_int now - real_of_int lastReview)
                                / (1000 * 60 * 60 * 24));
                       currentR =
                         (if truthy (stability f)
                          then retrievability (stability f) elapsedDays else 0)
                   in if untilDue < 0 then
                        (\<lparr> priority = 100 + (1 - currentR) * 100, isOverdue = True,
                           res_retrievability = Some currentR,
                           daysOverdue = Some (- untilDue), daysUntilDue = None \<rparr>, w1)
                      else
                        (\<lparr> priority = max 0 (40 - untilDue * 10), isOverdue = False,
                           res_retrievability = Some currentR,
                           daysOverdue = None, daysUntilDue = Some untilDue \<rparr>, w1)))))"

section \<open>The topic store and the \<open>log_review_outcome\<close> handler\<close>

definition MAX_BACKUPS :: nat where
  "MAX_BACKUPS = 10"

definition createBackup :: "world \<Rightarrow> world" where
  \<comment> \<open>The topics file always exists once the server has started. A backup is named by the
      time it is taken; the directory keeps the \<open>MAX_BACKUPS\<close> latest names.\<close>
  "createBackup w =
     (let (now, w1) = Date_now w;
          copied = (now, topics_file w1) # filter (\<lambda>b. fst b \<noteq> now) (backups w1);
          sorted = rev (sort_key fst copied)
      in w1\<lparr>backups := take MAX_BACKUPS sorted\<rparr>)"

definition atomicWriteTopics :: "world \<Rightarrow> topic_rec list \<Rightarrow> world" where
  "atomicWriteTopics w topics = w\<lparr>topics_file := topics\<rparr>"

definition migrateTopic :: "world \<Rightarrow> topic_rec \<Rightarrow> (topic_rec \<times> bool) \<times> world" where
  "migrateTopic w t =
     (let (t1, modified1, w1) =
            (if topic_id t = None \<or> topic_id t = Some [] then
               (let (u, w') = randomUUID w in (t\<lparr>topic_id := Some u\<rparr>, True, w'))
             else (t, False, w));
          (t2, modified2) =
            (case fsrs t1 of
               None \<Rightarrow> (t1\<lparr>fsrs := Some createDefaultFsrsState\<rparr>, True)
             | Some f \<Rightarrow> (t1, modified1))
      in ((t2, modified2), w1))"

fun migrateTopics :: "world \<Rightarrow> topic_rec list \<Rightarrow> (topic_rec list \<times> bool) \<times> world" where
  "migrateTopics w [] = (([], False), w)"
| "migrateTopics w (t # ts) =
     (let ((t', modified), w1) = migrateTopic w t;
          ((ts', needsMigration), w2) = migrateTopics w1 ts
      in ((t' # ts', modified \<or> needsMigration), w2))"

definition loadTopics :: "world \<Rightarrow> topic_rec list \<times> world" where
  "loadTopics w =
     (if topics_file w = [] then ([], w)
      else
        (let ((topics, needsMigration), w1) = migrateTopics w (topics_file w)
         in if needsMigration then (topics, atomicWriteTopics (createBackup w1) topics)
            else (topics, w1)))"

fun findIndex :: "('a \<Rightarrow> bool) \<Rightarrow> 'a list \<Rightarrow> nat option" where
  "findIndex p [] = None"
| "findIndex p (x # xs) =
     (if p x then Some 0 else map_option Suc (findIndex p xs))"

datatype update_result = Failure string | Success topic_rec

definition updateTopic ::
  "world \<Rightarrow> string \<Rightarrow> (world \<Rightarrow> topic_rec \<Rightarrow> (error + topic_rec) \<times> world)
     \<Rightarrow> (error + update_result) \<times> world" where
  "updateTopic w topicId updater =
     (let (topics, w1) = loadTopics w
      in case findIndex (\<lambda>t. topic_id t = Some topicId) topics of
           None \<Rightarrow> (Inr (Failure ''Topic not found''), w1)
         | Some index \<Rightarrow>
             (let w2 = createBackup w1;
                  (r, w3) = updater w2 (topics ! index)
              in case r of
                   Inl e \<Rightarrow> (Inl e, w3)
                 | Inr t' \<Rightarrow>
                     (Inr (Success t'), atomicWriteTopics w3 (topics[index := t']))))"

datatype jsval =
    JUndefined
  | JNull
  | JBoolean bool
  | JNumber real
  | JString string
  | JObject  \<comment> \<open>any array or object\<close>

fun the_number :: "jsval \<Rightarrow> real" where
  "the_number (JNumber x) = x"
| "the_number v = 0"

text \<open>
  The handler answers with a text. The three texts it can produce are kept apart by a
  constructor each, carrying the values the text is built from:
  \<open>Invalid_grade g\<close> is "Error: Invalid grade g. Must be 1 (Again), 2 (Hard), 3 (Good), or
  4 (Easy).", \<open>Update_error e id\<close> is "Error: e. Topic ID: id", and \<open>Review_logged t g\<close> is
  the JSON summary of the updated topic \<open>t\<close> and the grade.
\<close>

datatype response =
    Invalid_grade jsval
  | Update_error string string
  | Review_logged topic_rec jsval

definition log_review_outcome :: "world \<Rightarrow> string \<Rightarrow> jsval \<Rightarrow> (error + response) \<times> world" where
  "log_review_outcome w ident grade =
     (if grade \<notin> set [JNumber 1, JNumber 2, JNumber 3, JNumber 4] then
        (Inr (Invalid_grade grade), w)
      else
        (let (config, w1) = loadConfig w;
             (result, w2) =
               updateTopic w1 ident
                 (\<lambda>wu t.
                    let (r, wu') =
                          processReview wu
                            (case fsrs t of None \<Rightarrow> createDefaultFsrsState | Some f \<Rightarrow> f)
                            (the_number grade) (Some config)
                    in (case r of Inl e \<Rightarrow> Inl e | Inr newFsrs \<Rightarrow> Inr (t\<lparr>fsrs := Some newFsrs\<rparr>),
                        wu'))
         in case result of
              Inl e \<Rightarrow> (Inl e, w2)
            | Inr (Failure err) \<Rightarrow> (Inr (Update_error err ident), w2)
            | Inr (Success t) \<Rightarrow> (Inr (Review_logged t grade), w2)))"

section \<open>Well-formed inputs and sample inputs\<close>

definition valid_config :: "config \<Rightarrow> bool" where
  \<comment> \<open>The configuration as the data model types it.\<close>
  "valid_config c \<longleftrightarrow>
     15 \<le> length (weights c) \<and> 0 < target_retrievability c \<and> target_retrievability c < 1
     \<and> 0 < maximum_interval_days c"

definition sample_world :: world where
  "sample_world =
     \<lparr> clock = (\<lambda>n. 1700000000000 + 1000 * int n), clock_reads = 0, config_file = None,
       topics_file = [], backups = [], uuids = (\<lambda>n. ''00000000-0000-4000-8000-000000000000''),
       uuids_drawn = 0 \<rparr>"

definition sample_topic :: topic_rec where
  "sample_topic =
     \<lparr> topic_id = Some ''t1'', topic = ''powr'', summary = None, tags = [],
       timestamp = 1700000000000, fsrs = None \<rparr>"

definition in_domain :: "int \<Rightarrow> fsrs_state \<Rightarrow> real \<Rightarrow> config \<Rightarrow> bool" where
  \<comment> \<open>The well-formed inputs of a review at time \<open>now\<close>: a configuration of the data
      model's shape, a grade from 1 to 4, no review in the future, and after the first
      review a positive stability and a difficulty from 1 to 10.\<close>
  "in_domain now cur grade c \<longleftrightarrow>
     valid_config c \<and> grade \<in> {1, 2, 3, 4}
     \<and> (case last_reviewed cur of None \<Rightarrow> True | Some t \<Rightarrow> t \<le> now)
     \<and> (state cur = New
          \<or> (case stability cur of None \<Rightarrow> False | Some S \<Rightarrow> 0 < S)
            \<and> (case difficulty cur of None \<Rightarrow> False | Some D \<Rightarrow> 1 \<le> D \<and> D \<le> 10))"

definition sample_reviewed :: fsrs_state where
  \<comment> \<open>The default state after one review with grade 3 under the default configuration,
      at the first clock reading of \<open>sample_world\<close>.\<close>
  "sample_reviewed =
     \<lparr> state = Review, stability = Some 2.4, difficulty = Some 4.93,
       due = Some 1700207360000, last_reviewed = Some 1700000000000,
       review_count = 1, lapses = 0 \<rparr>"

definition sample_store :: world where
  \<comment> \<open>\<open>sample_world\<close> with a configuration file and one stored topic, never reviewed.\<close>
  "sample_store =
     sample_world\<lparr>config_file := Some DEFAULT_CONFIG,
                   topics_file := [sample_topic\<lparr>fsrs := Some createDefaultFsrsState\<rparr>]\<rparr>"

definition sample_backed_up :: world where
  "sample_backed_up =
     sample_store\<lparr>clock_reads := 1,
                   backups := [(1700000000000, topics_file sample_store)]\<rparr>"

definition unscheduled :: priority_result where
  "unscheduled =
     \<lparr> priority = 50, isOverdue = False, res_retrievability = None,
       daysOverdue = None, daysUntilDue = None \<rparr>"

section \<open>Doubles: overflow, infinities and \<open>NaN\<close>\<close>

text \<open>
  A double is a finite number, an infinity or \<open>NaN\<close>. Rounding to the nearest double is
  not represented, except that a result of magnitude \<open>2^1024 - 2^970\<close> or more (half a
  step beyond the largest double) becomes an infinity. Zero has no sign here.
\<close>

datatype double = Num real | PosInf | NegInf | NaN

definition double_limit :: real where
  "double_limit = 2 ^ 1024 - 2 ^ 970"

definition to_double :: "real \<Rightarrow> double" where
  "to_double x =
     (if double_limit \<le> x then PosInf
      else if x \<le> - double_limit then NegInf
      else Num x)"

fun double_neg :: "double \<Rightarrow> double" where
  "double_neg (Num x) = Num (- x)"
| "double_neg PosInf = NegInf"
| "double_neg NegInf = PosInf"
| "double_neg NaN = NaN"

fun double_add :: "double \<Rightarrow> double \<Rightarrow> double" where
  "double_add NaN b = NaN"
| "double_add a NaN = NaN"
| "double_add (Num x) (Num y) = to_double (x + y)"
| "double_add PosInf NegInf = NaN"
| "double_add NegInf PosInf = NaN"
| "double_add PosInf b = PosInf"
| "double_add a PosInf = PosInf"
| "double_add NegInf b = NegInf"
| "double_add a NegInf = NegInf"

definition double_sub :: "double \<Rightarrow> double \<Rightarrow> double" where
  "double_sub a b = double_add a (double_neg b)"

fun double_mul :: "double \<Rightarrow> double \<Rightarrow> double" where
  "double_mul NaN b = NaN"
| "double_mul a NaN = NaN"
| "double_mul (Num x) (Num y) = to_double (x * y)"
| "double_mul PosInf (Num y) = (if y = 0 then NaN else if 0 < y then PosInf else NegInf)"
| "double_mul NegInf (Num y) = (if y = 0 then NaN else if 0 < y then NegInf else PosInf)"
| "double_mul (Num x) PosInf = (if x = 0 then NaN else if 0 < x then PosInf else NegInf)"
| "double_mul (Num x) NegInf = (if x = 0 then NaN else if 0 < x then NegInf else PosInf)"
| "double_mul PosInf PosInf = PosInf"
| "double_mul NegInf NegInf = PosInf"
| "double_mul PosInf NegInf = NegInf"
| "double_mul NegInf PosInf = NegInf"

fun double_le :: "double \<Rightarrow> double \<Rightarrow> bool" where
  \<comment> \<open>\<open>a <= b\<close>: false when either side is \<open>NaN\<close>.\<close>
  "double_le NaN b = False"
| "double_le a NaN = False"
| "double_le NegInf b = True"
| "double_le a PosInf = True"
| "double_le (Num x) (Num y) = (x \<le> y)"
| "double_le PosInf b = False"
| "double_le a NegInf = False"

fun Math_min_double :: "double \<Rightarrow> double \<Rightarrow> double" where
  "Math_min_double NaN b = NaN"
| "Math_min_double a NaN = NaN"
| "Math_min_double NegInf b = NegInf"
| "Math_min_double a NegInf = NegInf"
| "Math_min_double PosInf b = b"
| "Math_min_double a PosInf = a"
| "Math_min_double (Num x) (Num y) = Num (min x y)"

fun Math_max_double :: "double \<Rightarrow> double \<Rightarrow> double" where
  "Math_max_double NaN b = NaN"
| "Math_max_double a NaN = NaN"
| "Math_max_double PosInf b = PosInf"
| "Math_max_double a PosInf = PosInf"
| "Math_max_double NegInf b = b"
| "Math_max_double a NegInf = a"
| "Math_max_double (Num x) (Num y) = Num (max x y)"

fun Math_exp_double :: "double \<Rightarrow> double" where
  "Math_exp_double NaN = NaN"
| "Math_exp_double PosInf = PosInf"
| "Math_exp_double NegInf = Num 0"
| "Math_exp_double (Num x) = to_double (exp x)"

definition odd_integer :: "real \<Rightarrow> bool" where
  "odd_integer y \<longleftrightarrow> y = of_int \<lfloor>y\<rfloor> \<and> odd \<lfloor>y\<rfloor>"

fun Math_pow_double :: "double \<Rightarrow> double \<Rightarrow> double" where
  \<comment> \<open>\<open>Math.pow\<close>, case by case as the language defines it.\<close>
  "Math_pow_double b NaN = NaN"
| "Math_pow_double b (Num y) =
     (if y = 0 then Num 1
      else case b of
        NaN \<Rightarrow> NaN
      | PosInf \<Rightarrow> if 0 < y then PosInf else Num 0
      | NegInf \<Rightarrow> if 0 < y then (if odd_integer y then NegInf else PosInf) else Num 0
      | Num x \<Rightarrow>
          if x = 0 then (if 0 < y then Num 0 else PosInf)
          else if 0 < x then to_double (x powr y)
          else if y = of_int \<lfloor>y\<rfloor> then to_double (x powi \<lfloor>y\<rfloor>)
          else NaN)"
| "Math_pow_double b PosInf =
     (case b of
        NaN \<Rightarrow> NaN
      | PosInf \<Rightarrow> PosInf
      | NegInf \<Rightarrow> PosInf
      | Num x \<Rightarrow> if 1 < \<bar>x\<bar> then PosInf else if \<bar>x\<bar> = 1 then NaN else Num 0)"
| "Math_pow_double b NegInf =
     (case b of
        NaN \<Rightarrow> NaN
      | PosInf \<Rightarrow> Num 0
      | NegInf \<Rightarrow> Num 0
      | Num x \<Rightarrow> if 1 < \<bar>x\<bar> then Num 0 else if \<bar>x\<bar> = 1 then NaN else PosInf)"

definition weight_double :: "real list \<Rightarrow> nat \<Rightarrow> double" where
  \<comment> \<open>\<open>weights[i]\<close> in arithmetic: a read past the end is \<open>undefined\<close>, which counts as
      \<open>NaN\<close>.\<close>
  "weight_double ws i = (if i < length ws then Num (ws ! i) else NaN)"

definition clamp_double :: "double \<Rightarrow> double \<Rightarrow> double \<Rightarrow> double" where
  "clamp_double v lo hi = Math_max_double lo (Math_min_double hi v)"

definition updateDifficulty_double :: "double \<Rightarrow> double \<Rightarrow> real list \<Rightarrow> double" where
  "updateDifficulty_double currentDifficulty grade ws =
     (let w6 = weight_double ws 6;
          w7 = weight_double ws 7;
          meanDifficulty = weight_double ws 4;
          delta = double_mul (double_neg w6) (double_sub grade (Num 3));
          newD = double_add currentDifficulty delta;
          revertedD = double_add newD (double_mul w7 (double_sub meanDifficulty newD))
      in clamp_double revertedD (Num 1) (Num 10))"

definition updateStabilityFailure_double ::
  "double \<Rightarrow> double \<Rightarrow> double \<Rightarrow> real list \<Rightarrow> double" where
  "updateStabilityFailure_double S D R ws =
     (let w11 = weight_double ws 11;
          w12 = weight_double ws 12;
          w13 = weight_double ws 13;
          w14 = weight_double ws 14;
          newStability =
            double_mul
              (double_mul
                 (double_mul w11 (Math_pow_double D (double_neg w12)))
                 (double_sub (Math_pow_double (double_add S (Num 1)) w13) (Num 1)))
              (Math_exp_double (double_mul w14 (double_sub (Num 1) R)))
      in Math_min_double newStability S)"

definition overflow_weights :: "real list" where
  \<comment> \<open>The default weights with \<open>weights[6] = 2^1023\<close>, a finite double.\<close>
  "overflow_weights =
     [0.4, 0.6, 2.4, 5.8, 4.93, 0.94, 2 ^ 1023, 0.01, 1.49, 0.14, 0.94, 2.18, 0.05, 0.34,
      1.26]"

definition overflow_config :: config where
  "overflow_config = DEFAULT_CONFIG\<lparr>weights := overflow_weights\<rparr>"

definition lapse_weights :: "real list" where
  \<comment> \<open>The default weights with \<open>weights[11] = 0\<close> and \<open>weights[13] = 1000\<close>.\<close>
  "lapse_weights =
     [0.4, 0.6, 2.4, 5.8, 4.93, 0.94, 0.86, 0.01, 1.49, 0.14, 0.94, 0, 0.05, 1000, 1.26]"

definition short_config :: config where
  \<comment> \<open>The default configuration with a maximum interval of half a day.\<close>
  "short_config = DEFAULT_CONFIG\<lparr>maximum_interval_days := 0.5\<rparr>"

section \<open>Facts about the number model\<close>

lemma weight_nth: "n < length ws \<Longrightarrow> weight ws (real n) = ws ! n"
  by (simp add: weight_def)

lemma Math_pow_pos: "0 < x \<Longrightarrow> Math_pow x y = x powr y"
  by (simp add: Math_pow_def)

lemma or0_id: "or0 n = n"
  by (simp add: or0_def)

lemma toISOString_Inr: "toISOString d = Inr t \<longleftrightarrow> d = Some t"
  by (simp add: toISOString_def split: option.splits)

lemma toISOString_Inl: "toISOString d = Inl e \<longleftrightarrow> d = None"
  by (cases e) (simp add: toISOString_def split: option.splits)

lemma new_Date_in_range:
  assumes "0 \<le> t" and "t \<le> 8640000000000000"
  shows "new_Date t = Some \<lfloor>t\<rfloor>"
  using assms by (simp add: new_Date_def)

lemma new_Date_close:
  assumes "new_Date t = Some d"
  shows "\<bar>real_of_int d - t\<bar> < 1"
proof (cases "0 \<le> t")
  case True
  then have "d = \<lfloor>t\<rfloor>" using assms by (simp add: new_Date_def split: if_splits)
  then show ?thesis by linarith
next
  case False
  then have "d = \<lceil>t\<rceil>" using assms by (simp add: new_Date_def split: if_splits)
  then show ?thesis by linarith
qed

section \<open>The memory model\<close>

lemma retrievability_pos_stability:
  assumes "0 < s" and "0 \<le> t"
  shows "retrievability (Some s) t = 1 / (1 + t / (9 * s))"
proof -
  have "0 \<le> t / (9 * s)" using assms by simp
  then have "0 < 1 + t / (9 * s)" by linarith
  then show ?thesis
    using assms by (simp add: retrievability_def Math_pow_pos powr_minus_divide)
qed

text \<open>
  C4. \<open>nextInterval\<close> inverts \<open>retrievability\<close>: for a positive stability and a target
  strictly between 0 and 1, the retrievability after the interval computed for that target
  is the target itself, exactly, in real arithmetic.
\<close>

theorem nextInterval_inverts_retrievability:
  assumes "0 < s" and "0 < r" and "r < 1"
  shows "retrievability (Some s) (nextInterval (Some s) r) = r"
proof -
  have ni: "nextInterval (Some s) r = 9 * s * (1 / r - 1)"
    using assms by (simp add: nextInterval_def)
  have "1 < 1 / r" using assms by simp
  then have nonneg: "0 \<le> 9 * s * (1 / r - 1)" using assms by simp
  have "9 * s * (1 / r - 1) / (9 * s) = 1 / r - 1" using assms by simp
  then have "1 + 9 * s * (1 / r - 1) / (9 * s) = 1 / r" by simp
  then show ?thesis
    using assms nonneg by (simp add: ni retrievability_pos_stability)
qed

theorem nextInterval_inverts_retrievability_witness:
  "(0::real) < 2 \<and> (0::real) < 9 / 10 \<and> (9 / 10 :: real) < 1
   \<and> retrievability (Some 2) (nextInterval (Some 2) (9 / 10)) = 9 / 10"
  using nextInterval_inverts_retrievability [of 2 "9 / 10"] by simp



text \<open>
  C5. On a weights vector with its 15 mandatory entries, \<open>updateStabilitySuccess\<close> returns
  \<open>S * (1 + exp w8 * (11 - D) * S^(-w9) * (exp (w10 * (1 - R)) - 1))\<close>, and the result
  does not depend on the entries from index 15 on: replacing them by anything, or dropping
  them, leaves it unchanged, for every grade. The hard penalty and the easy bonus are not
  applied.
\<close>

theorem updateStabilitySuccess_ignores_optional_weights:
  assumes "15 \<le> length ws"
  shows "updateStabilitySuccess S D R grade ws =
           S * (1 + exp (ws ! 8) * (11 - D) * Math_pow S (- (ws ! 9))
                      * (exp (ws ! 10 * (1 - R)) - 1))
         \<and> updateStabilitySuccess S D R grade (take 15 ws @ extra) =
             updateStabilitySuccess S D R grade ws"
proof -
  have r: "weight ws 8 = ws ! 8" "weight ws 9 = ws ! 9" "weight ws 10 = ws ! 10"
    using assms weight_nth [of 8 ws] weight_nth [of 9 ws] weight_nth [of 10 ws] by simp_all
  have t: "weight (take 15 ws @ extra) 8 = ws ! 8" "weight (take 15 ws @ extra) 9 = ws ! 9"
    "weight (take 15 ws @ extra) 10 = ws ! 10"
    using assms weight_nth [of 8 "take 15 ws @ extra"] weight_nth [of 9 "take 15 ws @ extra"]
      weight_nth [of 10 "take 15 ws @ extra"]
    by (simp_all add: nth_append)
  show ?thesis
    by (simp add: updateStabilitySuccess_def Let_def r t)
qed

theorem updateStabilitySuccess_ignores_optional_weights_witness:
  "15 \<le> length (weights DEFAULT_CONFIG)
   \<and> updateStabilitySuccess 2.4 4.93 0.9 2 (weights DEFAULT_CONFIG @ [0.5, 3]) =
       updateStabilitySuccess 2.4 4.93 0.9 2 (weights DEFAULT_CONFIG)
   \<and> updateStabilitySuccess 2.4 4.93 0.9 4 (weights DEFAULT_CONFIG @ [0.5, 3]) =
       updateStabilitySuccess 2.4 4.93 0.9 4 (weights DEFAULT_CONFIG)"
proof -
  have l: "15 \<le> length (weights DEFAULT_CONFIG)" by (simp add: DEFAULT_CONFIG_def)
  have k: "take 15 (weights DEFAULT_CONFIG) = weights DEFAULT_CONFIG"
    by (simp add: DEFAULT_CONFIG_def)
  show ?thesis
    using l k
      updateStabilitySuccess_ignores_optional_weights
        [OF l, of "2.4" "4.93" "0.9" 2 "[0.5, 3]"]
      updateStabilitySuccess_ignores_optional_weights
        [OF l, of "2.4" "4.93" "0.9" 4 "[0.5, 3]"]
    by simp
qed

section \<open>The memory model in doubles\<close>

lemma double_limit_large: "1000 < double_limit"
  by (simp add: double_limit_def)

lemma to_double_Num: "\<bar>x\<bar> < double_limit \<Longrightarrow> to_double x = Num x"
  by (auto simp add: to_double_def)

lemma to_double_small: "\<bar>x\<bar> \<le> 1000 \<Longrightarrow> to_double x = Num x"
  using double_limit_large by (intro to_double_Num) linarith

lemma to_double_PosInf: "2 ^ 1024 \<le> x \<Longrightarrow> to_double x = PosInf"
proof -
  assume "2 ^ 1024 \<le> x"
  moreover have "double_limit \<le> 2 ^ 1024" by (simp add: double_limit_def)
  ultimately have "double_limit \<le> x" by linarith
  then show ?thesis by (simp add: to_double_def)
qed

lemma Math_min_double_NaN: "Math_min_double a b = NaN \<longleftrightarrow> a = NaN \<or> b = NaN"
  by (cases a; cases b) simp_all

lemma Math_min_double_le:
  "Math_min_double a b = NaN \<or> double_le (Math_min_double a b) b"
  by (cases a; cases b) simp_all

text \<open>
  Apart from \<open>NaN\<close>, the result of \<open>updateStabilityFailure\<close> is at most the stability it
  was given, also where intermediate results overflow.
\<close>

lemma updateStabilityFailure_double_le:
  "updateStabilityFailure_double S D R ws = NaN
   \<or> double_le (updateStabilityFailure_double S D R ws) S"
  by (simp add: updateStabilityFailure_double_def Let_def Math_min_double_le)

lemma pow_small: "to_double (4.93 powr - 0.05) = Num (4.93 powr - 0.05)"
proof -
  have "(4.93::real) powr - 0.05 \<le> 4.93 powr 0" by (intro powr_mono) simp_all
  then have "(4.93::real) powr - 0.05 \<le> 1" by simp
  moreover have "0 \<le> (4.93::real) powr - 0.05" by simp
  ultimately have "\<bar>(4.93::real) powr - 0.05\<bar> \<le> 1000" by simp
  then show ?thesis by (rule to_double_small)
qed

lemma pow_large: "to_double (3.4 powr 1000) = PosInf"
proof -
  have "(3.4::real) powr 1000 = 3.4 ^ 1000"
    using powr_realpow [of "3.4::real" 1000] by simp
  moreover have "(2::real) ^ 1024 \<le> 3.4 ^ 1000"
  proof -
    have "(2::real) ^ 1024 \<le> 2 ^ 1500" by (intro power_increasing) simp_all
    also have "\<dots> = (2 ^ 3) ^ 500" by (simp add: power_mult [symmetric])
    also have "\<dots> \<le> ((3.4::real) ^ 2) ^ 500"
      by (intro power_mono) (simp_all add: power2_eq_square)
    also have "\<dots> = 3.4 ^ 1000" by (simp add: power_mult [symmetric])
    finally show ?thesis .
  qed
  ultimately show ?thesis by (simp only: to_double_PosInf)
qed

text \<open>
  C6 fails on the code. With stability 2.4, difficulty 4.93, retrievability 0.9 and the
  weights \<open>lapse_weights\<close>, \<open>Math.pow(3.4, 1000)\<close> overflows to \<open>Infinity\<close>, the product
  \<open>0 * Infinity\<close> is \<open>NaN\<close>, and \<open>Math.min(NaN, 2.4)\<close> is \<open>NaN\<close>, which is not at most
  2.4.
\<close>

theorem updateStabilityFailure_overflow_NaN:
  "updateStabilityFailure_double (Num 2.4) (Num 4.93) (Num 0.9) lapse_weights = NaN
   \<and> \<not> double_le (updateStabilityFailure_double (Num 2.4) (Num 4.93) (Num 0.9) lapse_weights)
         (Num 2.4)"
proof -
  have a: "to_double (2.4 + 1) = Num 3.4" using to_double_small [of "3.4"] by simp
  have z: "to_double 0 = Num 0" using to_double_small [of 0] by simp
  have p: "Math_pow_double (Num 4.93) (double_neg (Num 0.05)) = Num (4.93 powr - 0.05)"
    using pow_small by simp
  have q: "Math_pow_double (double_add (Num 2.4) (Num 1)) (Num 1000) = PosInf"
    using pow_large a by simp
  have "updateStabilityFailure_double (Num 2.4) (Num 4.93) (Num 0.9) lapse_weights =
          Math_min_double
            (double_mul
               (double_mul
                  (double_mul (Num 0) (Math_pow_double (Num 4.93) (double_neg (Num 0.05))))
                  (double_sub (Math_pow_double (double_add (Num 2.4) (Num 1)) (Num 1000))
                     (Num 1)))
               (Math_exp_double (double_mul (Num 1.26) (double_sub (Num 1) (Num 0.9)))))
            (Num 2.4)"
    by (simp add: updateStabilityFailure_double_def Let_def weight_double_def
        lapse_weights_def del: Math_pow_double.simps double_add.simps double_mul.simps
        Math_exp_double.simps double_neg.simps Math_min_double.simps)
  also have "\<dots> = NaN"
    unfolding p q by (simp add: double_sub_def z)
  finally have n:
    "updateStabilityFailure_double (Num 2.4) (Num 4.93) (Num 0.9) lapse_weights = NaN" .
  have "\<not> double_le NaN (Num 2.4)" by simp
  then have "\<not> double_le
      (updateStabilityFailure_double (Num 2.4) (Num 4.93) (Num 0.9) lapse_weights) (Num 2.4)"
    unfolding n .
  with n show ?thesis by (intro conjI)
qed


lemma clamp_double_NaN: "clamp_double v (Num 1) (Num 10) = NaN \<longleftrightarrow> v = NaN"
  by (cases v) (simp_all add: clamp_double_def)

text \<open>
  Apart from \<open>NaN\<close>, \<open>clamp\<close> to 1 and 10 gives a number from 1 to 10, also for an
  infinity.
\<close>

lemma clamp_double_range:
  assumes "v \<noteq> NaN"
  shows "\<exists>d. clamp_double v (Num 1) (Num 10) = Num d \<and> 1 \<le> d \<and> d \<le> 10"
  using assms by (cases v) (simp_all add: clamp_double_def)

section \<open>The review state machine\<close>

lemma processReview_world:
  "snd (processReview w cur g (Some c)) = w\<lparr>clock_reads := Suc (clock_reads w)\<rparr>"
  unfolding processReview_def Date_now_def Let_def
  by (simp split: sum.splits split del: if_split cong: if_weak_cong)

lemma processReview_common:
  assumes "processReview w cur g (Some c) = (Inr s', w')"
  shows "last_reviewed s' = Some (clock w (clock_reads w))"
    and "review_count s' = review_count cur + 1"
    and "due s' =
           new_Date (real_of_int (clock w (clock_reads w))
             + max (min (nextInterval (stability s') (target_retrievability c))
                        (maximum_interval_days c)) 1 * 24 * 60 * 60 * 1000)"
  using assms unfolding processReview_def Date_now_def Let_def
  by (cases "state cur = New"; cases "g = 1";
      auto simp add: or0_id toISOString_Inr split: sum.splits split del: if_split
        cong: if_weak_cong)+

lemma processReview_new:
  assumes "processReview w cur g (Some c) = (Inr s', w')" and "state cur = New"
  shows "stability s' = Some (initialStability g (weights c))"
    and "difficulty s' = Some (initialDifficulty g (weights c))"
    and "g = 1 \<Longrightarrow> state s' = Learning \<and> lapses s' = 1"
    and "g \<noteq> 1 \<Longrightarrow> state s' = Review \<and> lapses s' = lapses cur"
  using assms unfolding processReview_def Date_now_def Let_def
  by (cases "g = 1";
      auto simp add: or0_id toISOString_Inr split: sum.splits split del: if_split
        cong: if_weak_cong)+

lemma processReview_pair:
  "fst (processReview w cur g cfg) = r \<Longrightarrow>
     processReview w cur g cfg = (r, snd (processReview w cur g cfg))"
  by (cases "processReview w cur g cfg") simp

lemma processReview_raises:
  assumes "fst (processReview w cur g (Some c)) = Inl e"
  shows "\<exists>raw. new_Date (real_of_int (clock w (clock_reads w))
             + max (min raw (maximum_interval_days c)) 1 * 24 * 60 * 60 * 1000) = None"
  using assms unfolding processReview_def Date_now_def Let_def
  by (auto simp add: toISOString_Inl split: sum.splits split del: if_split
      cong: if_weak_cong)

text \<open>
  A review returns a state, rather than raising \<open>RangeError\<close>, whenever the clock is not
  before the epoch and the latest possible due date is a valid date. (The claims use this
  for first reviews only: there the program cannot produce a \<open>NaN\<close> interval either.)
\<close>

lemma processReview_returns:
  assumes "0 \<le> clock w (clock_reads w)"
    and "real_of_int (clock w (clock_reads w)) + max 1 (maximum_interval_days c) * 86400000
           \<le> 8640000000000000"
  shows "\<exists>s'. fst (processReview w cur g (Some c)) = Inr s'"
proof (cases "fst (processReview w cur g (Some c))")
  case (Inl e)
  then obtain raw where n: "new_Date (real_of_int (clock w (clock_reads w))
             + max (min raw (maximum_interval_days c)) 1 * 24 * 60 * 60 * 1000) = None"
    using processReview_raises by blast
  let ?iv = "max (min raw (maximum_interval_days c)) 1"
  have lo: "1 \<le> ?iv" by simp
  have hi: "?iv \<le> max 1 (maximum_interval_days c)" by simp
  have "?iv * 86400000 \<le> max 1 (maximum_interval_days c) * 86400000"
    using hi by (simp only: mult_le_cancel_right_pos zero_less_numeral)
  then have up: "real_of_int (clock w (clock_reads w)) + ?iv * 24 * 60 * 60 * 1000
                   \<le> 8640000000000000"
    using assms(2) by simp
  have "0 \<le> ?iv * 86400000" using lo by simp
  then have dn: "0 \<le> real_of_int (clock w (clock_reads w)) + ?iv * 24 * 60 * 60 * 1000"
    using assms(1) by simp
  from new_Date_in_range [OF dn up] n show ?thesis by simp
next
  case (Inr s')
  then show ?thesis by blast
qed

lemma sample_first_review:
  "processReview sample_world createDefaultFsrsState 3 (Some DEFAULT_CONFIG) =
     (Inr sample_reviewed, sample_world\<lparr>clock_reads := 1\<rparr>)"
  by (simp add: processReview_def Date_now_def Let_def sample_world_def sample_reviewed_def
      createDefaultFsrsState_def DEFAULT_CONFIG_def or0_def truthy_def initialStability_def
      initialDifficulty_def weight_def clamp_def nextInterval_def new_Date_def
      toISOString_def)

lemma sample_second_review:
  "processReview (sample_world\<lparr>clock_reads := 1\<rparr>) createDefaultFsrsState 3
       (Some DEFAULT_CONFIG) =
     (Inr (sample_reviewed\<lparr>due := Some 1700207361000, last_reviewed := Some 1700000001000\<rparr>),
      sample_world\<lparr>clock_reads := 2\<rparr>)"
  by (simp add: processReview_def Date_now_def Let_def sample_world_def sample_reviewed_def
      createDefaultFsrsState_def DEFAULT_CONFIG_def or0_def truthy_def initialStability_def
      initialDifficulty_def weight_def clamp_def nextInterval_def new_Date_def
      toISOString_def)

lemma sample_review_without_config:
  "processReview sample_world createDefaultFsrsState 3 None =
     (Inr sample_reviewed,
      sample_world\<lparr>clock_reads := 1, config_file := Some DEFAULT_CONFIG\<rparr>)"
  by (simp add: processReview_def Date_now_def Let_def sample_world_def sample_reviewed_def
      loadConfig_def
      createDefaultFsrsState_def DEFAULT_CONFIG_def or0_def truthy_def initialStability_def
      initialDifficulty_def weight_def clamp_def nextInterval_def new_Date_def
      toISOString_def)

lemma sample_world_in_range:
  "0 \<le> clock sample_world (clock_reads sample_world)
   \<and> real_of_int (clock sample_world (clock_reads sample_world))
        + max 1 (maximum_interval_days DEFAULT_CONFIG) * 86400000 \<le> 8640000000000000"
  by (simp add: sample_world_def DEFAULT_CONFIG_def)

lemma sample_in_domain:
  "in_domain (clock sample_world (clock_reads sample_world)) createDefaultFsrsState 3
     DEFAULT_CONFIG"
  by (simp add: in_domain_def valid_config_def DEFAULT_CONFIG_def createDefaultFsrsState_def)

lemma short_first_review:
  "processReview sample_world createDefaultFsrsState 3 (Some short_config) =
     (Inr (sample_reviewed\<lparr>due := Some 1700086400000\<rparr>), sample_world\<lparr>clock_reads := 1\<rparr>)"
  by (simp add: processReview_def Date_now_def Let_def sample_world_def sample_reviewed_def
      createDefaultFsrsState_def short_config_def DEFAULT_CONFIG_def or0_def truthy_def
      initialStability_def initialDifficulty_def weight_def clamp_def nextInterval_def
      new_Date_def toISOString_def)

text \<open>
  C7, as the code has it. With a positive \<open>maximum_interval_days\<close>, the state a review
  returns has \<open>last_reviewed = now\<close> (the clock reading of the review), a review count one
  higher, and as \<open>due\<close> the date made from \<open>now + interval\<close> days, where \<open>interval\<close> is
  \<open>max (min (nextInterval newStability target_retrievability) maximum_interval_days) 1\<close>.
  Dates count whole milliseconds, so \<open>due\<close> is within one millisecond of that sum. The
  interval lies between 1 and \<open>maximum_interval_days\<close> when \<open>maximum_interval_days\<close> is
  at least 1, and is 1 when it is below 1: the lower bound wins. A first review of a
  well-formed input returns a state whenever \<open>now\<close> is not before the epoch and \<open>now\<close>
  plus the longest interval is a valid date.
\<close>

theorem processReview_schedules_due:
  assumes "0 < maximum_interval_days c"
  shows "(state cur = New \<and> in_domain (clock w (clock_reads w)) cur g c
            \<and> 0 \<le> clock w (clock_reads w)
            \<and> real_of_int (clock w (clock_reads w))
                + max 1 (maximum_interval_days c) * 86400000 \<le> 8640000000000000
          \<longrightarrow> (\<exists>s'. fst (processReview w cur g (Some c)) = Inr s'))
         \<and> (\<forall>s'. fst (processReview w cur g (Some c)) = Inr s' \<longrightarrow>
              (let now = clock w (clock_reads w);
                   interval = clamp (nextInterval (stability s') (target_retrievability c)) 1
                                (maximum_interval_days c)
               in due s' = new_Date (real_of_int now + interval * 24 * 60 * 60 * 1000)
                  \<and> (\<exists>d. due s' = Some d
                        \<and> \<bar>real_of_int d - (real_of_int now + interval * 24 * 60 * 60 * 1000)\<bar> < 1)
                  \<and> interval = max (min (nextInterval (stability s') (target_retrievability c))
                                      (maximum_interval_days c)) 1
                  \<and> 1 \<le> interval
                  \<and> (1 \<le> maximum_interval_days c \<longrightarrow> interval \<le> maximum_interval_days c)
                  \<and> (maximum_interval_days c < 1 \<longrightarrow> interval = 1)
                  \<and> last_reviewed s' = Some now
                  \<and> review_count s' = review_count cur + 1))"
proof (intro conjI allI impI)
  assume "state cur = New \<and> in_domain (clock w (clock_reads w)) cur g c
            \<and> 0 \<le> clock w (clock_reads w)
            \<and> real_of_int (clock w (clock_reads w))
                + max 1 (maximum_interval_days c) * 86400000 \<le> 8640000000000000"
  then show "\<exists>s'. fst (processReview w cur g (Some c)) = Inr s'"
    using processReview_returns by blast
next
  fix s' assume r: "fst (processReview w cur g (Some c)) = Inr s'"
  let ?now = "clock w (clock_reads w)"
  let ?iv = "clamp (nextInterval (stability s') (target_retrievability c)) 1
               (maximum_interval_days c)"
  note p = processReview_pair [OF r]
  have iv: "?iv = max (min (nextInterval (stability s') (target_retrievability c))
                        (maximum_interval_days c)) 1"
    by (simp add: clamp_def max.commute min.commute)
  have d: "due s' = new_Date (real_of_int ?now + ?iv * 24 * 60 * 60 * 1000)"
    using processReview_common(3) [OF p] by (simp only: iv)
  have "due s' \<noteq> None"
    using p unfolding processReview_def Date_now_def Let_def
    by (auto split: sum.splits split del: if_split cong: if_weak_cong)
  then obtain t where t: "due s' = Some t" by blast
  then have c: "\<bar>real_of_int t - (real_of_int ?now + ?iv * 24 * 60 * 60 * 1000)\<bar> < 1"
    using d new_Date_close by simp
  have lo: "1 \<le> ?iv" by (simp add: clamp_def)
  have hi: "1 \<le> maximum_interval_days c \<longrightarrow> ?iv \<le> maximum_interval_days c"
    by (simp add: clamp_def)
  have below: "maximum_interval_days c < 1 \<longrightarrow> ?iv = 1"
    by (simp add: clamp_def)
  show "let now = clock w (clock_reads w);
            interval = clamp (nextInterval (stability s') (target_retrievability c)) 1
                         (maximum_interval_days c)
        in due s' = new_Date (real_of_int now + interval * 24 * 60 * 60 * 1000)
           \<and> (\<exists>d. due s' = Some d
                 \<and> \<bar>real_of_int d - (real_of_int now + interval * 24 * 60 * 60 * 1000)\<bar> < 1)
           \<and> interval = max (min (nextInterval (stability s') (target_retrievability c))
                               (maximum_interval_days c)) 1
           \<and> 1 \<le> interval
           \<and> (1 \<le> maximum_interval_days c \<longrightarrow> interval \<le> maximum_interval_days c)
           \<and> (maximum_interval_days c < 1 \<longrightarrow> interval = 1)
           \<and> last_reviewed s' = Some now
           \<and> review_count s' = review_count cur + 1"
    unfolding Let_def
    using d t c iv lo hi below processReview_common(1) [OF p] processReview_common(2) [OF p]
    by blast
qed

theorem processReview_schedules_due_witness:
  "0 < maximum_interval_days DEFAULT_CONFIG
   \<and> state createDefaultFsrsState = New
   \<and> in_domain (clock sample_world (clock_reads sample_world)) createDefaultFsrsState 3
       DEFAULT_CONFIG
   \<and> 0 \<le> clock sample_world (clock_reads sample_world)
   \<and> real_of_int (clock sample_world (clock_reads sample_world))
        + max 1 (maximum_interval_days DEFAULT_CONFIG) * 86400000 \<le> 8640000000000000
   \<and> fst (processReview sample_world createDefaultFsrsState 3 (Some DEFAULT_CONFIG))
       = Inr sample_reviewed
   \<and> 1 \<le> maximum_interval_days DEFAULT_CONFIG
   \<and> clamp (nextInterval (stability sample_reviewed) (target_retrievability DEFAULT_CONFIG)) 1
       (maximum_interval_days DEFAULT_CONFIG) = 2.4
   \<and> due sample_reviewed = new_Date (1700000000000 + 2.4 * 24 * 60 * 60 * 1000)
   \<and> due sample_reviewed = Some 1700207360000
   \<and> last_reviewed sample_reviewed = Some 1700000000000
   \<and> review_count sample_reviewed = review_count createDefaultFsrsState + 1"
proof -
  have m: "0 < maximum_interval_days DEFAULT_CONFIG" by (simp add: DEFAULT_CONFIG_def)
  have m1: "1 \<le> maximum_interval_days DEFAULT_CONFIG" by (simp add: DEFAULT_CONFIG_def)
  have a: "state createDefaultFsrsState = New" by (simp add: createDefaultFsrsState_def)
  have f: "fst (processReview sample_world createDefaultFsrsState 3 (Some DEFAULT_CONFIG))
             = Inr sample_reviewed"
    by (simp add: sample_first_review)
  have i: "clamp (nextInterval (stability sample_reviewed)
             (target_retrievability DEFAULT_CONFIG)) 1
             (maximum_interval_days DEFAULT_CONFIG) = 2.4"
    by (simp add: sample_reviewed_def DEFAULT_CONFIG_def nextInterval_def clamp_def)
  have n: "clock sample_world (clock_reads sample_world) = 1700000000000"
    by (simp add: sample_world_def)
  have "due sample_reviewed = new_Date (1700000000000 + 2.4 * 24 * 60 * 60 * 1000)
        \<and> last_reviewed sample_reviewed = Some 1700000000000
        \<and> review_count sample_reviewed = review_count createDefaultFsrsState + 1"
    using processReview_schedules_due
      [OF m, of createDefaultFsrsState sample_world 3] f
    by (simp add: Let_def i n)
  moreover have "due sample_reviewed = Some 1700207360000"
    by (simp add: sample_reviewed_def)
  moreover have "in_domain (clock sample_world (clock_reads sample_world))
                   createDefaultFsrsState 3 DEFAULT_CONFIG"
    by (rule sample_in_domain)
  ultimately show ?thesis using m m1 a f i sample_world_in_range by simp
qed

text \<open>
  C7, as the claim states it, fails for a maximum below 1. Under \<open>short_config\<close>
  (\<open>maximum_interval_days = 0.5\<close>, which is positive) the first review with grade 3 is
  scheduled one day ahead: the interval is 1, above the maximum, so it does not lie in
  the closed interval from 1 to \<open>maximum_interval_days\<close>.
\<close>

theorem processReview_interval_counterexample:
  "0 < maximum_interval_days short_config
   \<and> fst (processReview sample_world createDefaultFsrsState 3 (Some short_config))
       = Inr (sample_reviewed\<lparr>due := Some 1700086400000\<rparr>)
   \<and> new_Date (1700000000000 + 1 * 24 * 60 * 60 * 1000) = Some 1700086400000
   \<and> max (min (nextInterval (Some 2.4) (target_retrievability short_config))
            (maximum_interval_days short_config)) 1 = 1
   \<and> maximum_interval_days short_config < 1"
proof -
  have f: "fst (processReview sample_world createDefaultFsrsState 3 (Some short_config))
             = Inr (sample_reviewed\<lparr>due := Some 1700086400000\<rparr>)"
    by (simp add: short_first_review)
  have d: "new_Date (1700000000000 + 1 * 24 * 60 * 60 * 1000) = Some 1700086400000"
    by (simp add: new_Date_def)
  have i: "max (min (nextInterval (Some 2.4) (target_retrievability short_config))
                  (maximum_interval_days short_config)) 1 = 1"
    by (simp add: short_config_def DEFAULT_CONFIG_def nextInterval_def)
  have m: "0 < maximum_interval_days short_config \<and> maximum_interval_days short_config < 1"
    by (simp add: short_config_def)
  show ?thesis using f d i m by (intro conjI) simp_all
qed

lemma initialStability_nth:
  assumes "g \<in> {1, 2, 3, 4}" and "4 \<le> length ws"
  shows "initialStability g ws = ws ! (nat \<lfloor>g\<rfloor> - 1)"
proof -
  have "g = 1 \<or> g = 2 \<or> g = 3 \<or> g = 4" using assms(1) by simp
  then show ?thesis
    using assms(2) by (auto simp add: initialStability_def weight_def)
qed

text \<open>
  C8. A first review (state tag \<open>new\<close>) with a grade in \<open>{1,2,3,4}\<close> returns a state
  on every input in the domain when the dates are in range, and the state it returns has
  \<open>stability = initialStability grade weights = weights[grade - 1]\<close> and
  \<open>difficulty = initialDifficulty grade weights\<close>; with grade 1 the tag becomes
  \<open>learning\<close> and \<open>lapses\<close> becomes 1, with grade 2, 3 or 4 the tag becomes \<open>review\<close>
  and \<open>lapses\<close> keeps its value (0 for a topic that was never reviewed).
\<close>

theorem first_review_initialises:
  assumes "state cur = New" and "g \<in> {1, 2, 3, 4}" and "15 \<le> length (weights c)"
  shows "(in_domain (clock w (clock_reads w)) cur g c
            \<and> 0 \<le> clock w (clock_reads w)
            \<and> real_of_int (clock w (clock_reads w))
                + max 1 (maximum_interval_days c) * 86400000 \<le> 8640000000000000
          \<longrightarrow> (\<exists>s'. fst (processReview w cur g (Some c)) = Inr s'))
         \<and> (\<forall>s'. fst (processReview w cur g (Some c)) = Inr s' \<longrightarrow>
               stability s' = Some (initialStability g (weights c))
               \<and> initialStability g (weights c) = weights c ! (nat \<lfloor>g\<rfloor> - 1)
               \<and> difficulty s' = Some (initialDifficulty g (weights c))
               \<and> (g = 1 \<longrightarrow> state s' = Learning \<and> lapses s' = 1)
               \<and> (g \<in> {2, 3, 4} \<longrightarrow> state s' = Review \<and> lapses s' = lapses cur))"
proof (intro conjI allI impI)
  assume "in_domain (clock w (clock_reads w)) cur g c
            \<and> 0 \<le> clock w (clock_reads w)
            \<and> real_of_int (clock w (clock_reads w))
                + max 1 (maximum_interval_days c) * 86400000 \<le> 8640000000000000"
  then show "\<exists>s'. fst (processReview w cur g (Some c)) = Inr s'"
    using processReview_returns by blast
next
  fix s' assume r: "fst (processReview w cur g (Some c)) = Inr s'"
  note p = processReview_pair [OF r]
  show "stability s' = Some (initialStability g (weights c))"
    using processReview_new(1) [OF p assms(1)] .
  show "initialStability g (weights c) = weights c ! (nat \<lfloor>g\<rfloor> - 1)"
    using assms(2,3) by (intro initialStability_nth) simp_all
  show "difficulty s' = Some (initialDifficulty g (weights c))"
    using processReview_new(2) [OF p assms(1)] .
  { assume "g = 1"
    then show "state s' = Learning" and "lapses s' = 1"
      using processReview_new(3) [OF p assms(1)] by simp_all }
  { assume "g \<in> {2, 3, 4}"
    then have "g \<noteq> 1" by auto
    then show "state s' = Review" and "lapses s' = lapses cur"
      using processReview_new(4) [OF p assms(1)] by simp_all }
qed

theorem first_review_initialises_witness:
  "state createDefaultFsrsState = New \<and> (3::real) \<in> {1, 2, 3, 4}
   \<and> 15 \<le> length (weights DEFAULT_CONFIG)
   \<and> in_domain (clock sample_world (clock_reads sample_world)) createDefaultFsrsState 3
       DEFAULT_CONFIG
   \<and> 0 \<le> clock sample_world (clock_reads sample_world)
   \<and> real_of_int (clock sample_world (clock_reads sample_world))
        + max 1 (maximum_interval_days DEFAULT_CONFIG) * 86400000 \<le> 8640000000000000
   \<and> fst (processReview sample_world createDefaultFsrsState 3 (Some DEFAULT_CONFIG))
       = Inr sample_reviewed
   \<and> stability sample_reviewed = Some (initialStability 3 (weights DEFAULT_CONFIG))
   \<and> initialStability 3 (weights DEFAULT_CONFIG) = weights DEFAULT_CONFIG ! 2
   \<and> difficulty sample_reviewed = Some (initialDifficulty 3 (weights DEFAULT_CONFIG))
   \<and> state sample_reviewed = Review
   \<and> lapses sample_reviewed = lapses createDefaultFsrsState"
proof -
  have a: "state createDefaultFsrsState = New" by (simp add: createDefaultFsrsState_def)
  have b: "(3::real) \<in> {1, 2, 3, 4}" by simp
  have l: "15 \<le> length (weights DEFAULT_CONFIG)" by (simp add: DEFAULT_CONFIG_def)
  have f: "fst (processReview sample_world createDefaultFsrsState 3 (Some DEFAULT_CONFIG))
             = Inr sample_reviewed"
    by (simp add: sample_first_review)
  have n: "nat \<lfloor>3::real\<rfloor> - 1 = 2" by simp
  have m: "(3::real) \<in> {2, 3, 4}" by simp
  have "\<forall>s'. fst (processReview sample_world createDefaultFsrsState 3 (Some DEFAULT_CONFIG))
               = Inr s' \<longrightarrow>
               stability s' = Some (initialStability 3 (weights DEFAULT_CONFIG))
               \<and> initialStability 3 (weights DEFAULT_CONFIG)
                    = weights DEFAULT_CONFIG ! (nat \<lfloor>3::real\<rfloor> - 1)
               \<and> difficulty s' = Some (initialDifficulty 3 (weights DEFAULT_CONFIG))
               \<and> ((3::real) = 1 \<longrightarrow> state s' = Learning \<and> lapses s' = 1)
               \<and> ((3::real) \<in> {2, 3, 4} \<longrightarrow>
                     state s' = Review \<and> lapses s' = lapses createDefaultFsrsState)"
    using first_review_initialises [OF a b l, of sample_world] by (rule conjunct2)
  then have "stability sample_reviewed = Some (initialStability 3 (weights DEFAULT_CONFIG))
             \<and> initialStability 3 (weights DEFAULT_CONFIG)
                  = weights DEFAULT_CONFIG ! (nat \<lfloor>3::real\<rfloor> - 1)
             \<and> difficulty sample_reviewed = Some (initialDifficulty 3 (weights DEFAULT_CONFIG))
             \<and> ((3::real) = 1 \<longrightarrow> state sample_reviewed = Learning \<and> lapses sample_reviewed = 1)
             \<and> ((3::real) \<in> {2, 3, 4} \<longrightarrow>
                   state sample_reviewed = Review
                   \<and> lapses sample_reviewed = lapses createDefaultFsrsState)"
    using f by blast
  then show ?thesis
    using a b l f m sample_in_domain sample_world_in_range unfolding n by blast
qed

lemma overflow_first_review:
  "processReview sample_world createDefaultFsrsState 3 (Some overflow_config) =
     (Inr sample_reviewed, sample_world\<lparr>clock_reads := 1\<rparr>)"
  by (simp add: processReview_def Date_now_def Let_def sample_world_def sample_reviewed_def
      createDefaultFsrsState_def overflow_config_def overflow_weights_def DEFAULT_CONFIG_def
      or0_def truthy_def initialStability_def initialDifficulty_def weight_def clamp_def
      nextInterval_def new_Date_def toISOString_def)

lemma updateDifficulty_overflow:
  "updateDifficulty_double (Num 4.93) (Num 1) overflow_weights = NaN"
proof -
  have a: "to_double (1 - 3) = Num (- 2)" using to_double_small [of "- 2"] by simp
  have b: "to_double (- (2 ^ 1023) * - 2) = PosInf"
    by (intro to_double_PosInf) simp
  show ?thesis
    using a b
    by (simp add: updateDifficulty_double_def Let_def weight_double_def overflow_weights_def
        double_sub_def clamp_double_def)
qed

lemma to_double_bounded: "0 \<le> x \<Longrightarrow> x \<le> 1000 \<Longrightarrow> to_double x = Num x"
  by (intro to_double_small) simp

lemma product_bounded:
  fixes a b :: real
  assumes "0 \<le> a" and "a \<le> 30" and "0 \<le> b" and "b \<le> 30"
  shows "0 \<le> a * b \<and> a * b \<le> 1000"
proof -
  have "a * b \<le> 30 * 30" using assms by (intro mult_mono) simp_all
  then show ?thesis using assms by simp
qed

text \<open>
  The stability computed by a lapse under \<open>overflow_config\<close>, from stability 2.4 and
  difficulty 4.93, is a positive number of at most 2.4 for every retrievability.
\<close>

lemma lapse_stability_finite:
  assumes "0 \<le> R" and "R \<le> 1"
  shows "\<exists>r. updateStabilityFailure_double (Num 2.4) (Num 4.93) (Num R) overflow_weights
               = Num r \<and> 0 < r \<and> r \<le> 2.4"
proof -
  define c1 :: real where "c1 = 4.93 powr - 0.05"
  define c2 :: real where "c2 = 3.4 powr 0.34"
  define e :: real where "e = exp (1.26 * (1 - R))"
  define m1 :: real where "m1 = 2.18 * c1"
  define d2 :: real where "d2 = c2 - 1"
  define m2 :: real where "m2 = m1 * d2"
  define m4 :: real where "m4 = m2 * e"
  have c1: "0 < c1" "c1 \<le> 1"
  proof -
    show "0 < c1" by (simp add: c1_def)
    have "(4.93::real) powr - 0.05 \<le> 4.93 powr 0" by (intro powr_mono) simp_all
    then show "c1 \<le> 1" by (simp add: c1_def)
  qed
  have c2: "1 < c2" "c2 \<le> 3.4"
  proof -
    have "(3.4::real) powr 0 < 3.4 powr 0.34" by (intro powr_less_mono) simp_all
    then show "1 < c2" by (simp add: c2_def)
    have "(3.4::real) powr 0.34 \<le> 3.4 powr 1" by (intro powr_mono) simp_all
    then show "c2 \<le> 3.4" by (simp add: c2_def)
  qed
  have e: "1 \<le> e" "e \<le> 9"
  proof -
    have "0 \<le> 1.26 * (1 - R)" using assms by simp
    then show "1 \<le> e" by (simp add: e_def)
    have "1.26 * (1 - R) \<le> 1 + 1" using assms by simp
    then have "e \<le> exp (1 + 1)" unfolding e_def by (simp only: exp_le_cancel_iff)
    also have "\<dots> = exp 1 * exp (1::real)" by (rule exp_add)
    also have "\<dots> \<le> 3 * 3"
      using exp_le by (intro mult_mono) simp_all
    finally show "e \<le> 9" by simp
  qed
  have m1: "0 < m1" "m1 \<le> 30" using c1 by (simp_all add: m1_def)
  have d2: "0 < d2" "d2 \<le> 30" using c2 by (simp_all add: d2_def)
  have m2: "0 < m2" "m2 \<le> 30"
  proof -
    show "0 < m2" unfolding m2_def using m1 d2 by (intro mult_pos_pos)
    have "m1 \<le> 3" using c1 by (simp add: m1_def)
    moreover have "d2 \<le> 3" using c2 by (simp add: d2_def)
    ultimately have "m1 * d2 \<le> 3 * 3" using m1 d2 by (intro mult_mono) simp_all
    then show "m2 \<le> 30" by (simp add: m2_def)
  qed
  have m4: "0 < m4" "m4 \<le> 1000"
  proof -
    have "0 < e" using e by simp
    then show "0 < m4" unfolding m4_def using m2 by (intro mult_pos_pos)
    show "m4 \<le> 1000"
      unfolding m4_def using product_bounded [of m2 e] m2 e by simp
  qed
  have r: "0 \<le> 1 - R" "1 - R \<le> 1000" "0 \<le> 1.26 * (1 - R)" "1.26 * (1 - R) \<le> 1000"
    using assms by simp_all
  have p1: "Math_pow_double (Num 4.93) (double_neg (Num 0.05)) = Num c1"
    using to_double_bounded [of c1] c1 by (simp add: c1_def)
  have q1: "double_mul (Num 2.18) (Num c1) = Num m1"
    using to_double_bounded [of m1] m1 by (simp add: m1_def)
  have a: "double_add (Num 2.4) (Num 1) = Num 3.4"
    using to_double_small [of "3.4"] by simp
  have p2: "Math_pow_double (Num 3.4) (Num 0.34) = Num c2"
    using to_double_bounded [of c2] c2 by (simp add: c2_def)
  have s2: "double_sub (Num c2) (Num 1) = Num d2"
    using to_double_bounded [of d2] d2 by (simp add: double_sub_def d2_def)
  have q2: "double_mul (Num m1) (Num d2) = Num m2"
    using to_double_bounded [of m2] m2 by (simp add: m2_def)
  have s3: "double_sub (Num 1) (Num R) = Num (1 - R)"
    using to_double_bounded [OF r(1) r(2)] by (simp add: double_sub_def)
  have q3: "double_mul (Num 1.26) (Num (1 - R)) = Num (1.26 * (1 - R))"
    using to_double_bounded [OF r(3) r(4)] by simp
  have ex: "Math_exp_double (Num (1.26 * (1 - R))) = Num e"
    using to_double_bounded [of e] e by (simp add: e_def)
  have q4: "double_mul (Num m2) (Num e) = Num m4"
    using to_double_bounded [of m4] m4 by (simp add: m4_def)
  have "updateStabilityFailure_double (Num 2.4) (Num 4.93) (Num R) overflow_weights =
          Math_min_double
            (double_mul
               (double_mul
                  (double_mul (Num 2.18) (Math_pow_double (Num 4.93) (double_neg (Num 0.05))))
                  (double_sub (Math_pow_double (double_add (Num 2.4) (Num 1)) (Num 0.34))
                     (Num 1)))
               (Math_exp_double (double_mul (Num 1.26) (double_sub (Num 1) (Num R)))))
            (Num 2.4)"
    by (simp add: updateStabilityFailure_double_def Let_def weight_double_def
        overflow_weights_def del: Math_pow_double.simps double_add.simps double_mul.simps
        Math_exp_double.simps double_neg.simps Math_min_double.simps)
  also have "\<dots> = Num (min m4 2.4)"
    unfolding p1 q1 a p2 s2 q2 s3 q3 ex q4 by (simp only: Math_min_double.simps)
  finally have "updateStabilityFailure_double (Num 2.4) (Num 4.93) (Num R) overflow_weights
                  = Num (min m4 2.4)" .
  moreover have "0 < min m4 2.4" using m4 by simp
  moreover have "min m4 2.4 \<le> 2.4" by simp
  ultimately show ?thesis by blast
qed

text \<open>
  C3 fails on the code. Under \<open>overflow_config\<close>, a configuration of the shape the data
  model requires, the first review (grade 3) of a new topic gives difficulty 4.93. In the
  second review (grade 1) \<open>updateDifficulty\<close> computes \<open>delta = Infinity\<close>, then
  \<open>Infinity + 0.01 * (4.93 - Infinity)\<close>, which is \<open>NaN\<close>, and \<open>clamp\<close> returns \<open>NaN\<close>.
  The new stability is a positive number of at most 2.4, so the interval is finite and
  that review returns: the difficulty stored in the state it returns is not a number
  from 1 to 10.
\<close>

theorem updateDifficulty_overflow_NaN:
  "valid_config overflow_config
   \<and> fst (processReview sample_world createDefaultFsrsState 3 (Some overflow_config))
       = Inr sample_reviewed
   \<and> difficulty sample_reviewed = Some 4.93
   \<and> updateDifficulty_double (Num 4.93) (Num 1) (weights overflow_config) = NaN
   \<and> \<not> (double_le (Num 1)
            (updateDifficulty_double (Num 4.93) (Num 1) (weights overflow_config))
          \<and> double_le (updateDifficulty_double (Num 4.93) (Num 1) (weights overflow_config))
              (Num 10))"
proof -
  have v: "valid_config overflow_config"
    by (simp add: valid_config_def overflow_config_def overflow_weights_def DEFAULT_CONFIG_def)
  have d: "difficulty sample_reviewed = Some 4.93" by (simp add: sample_reviewed_def)
  have w: "weights overflow_config = overflow_weights" by (simp add: overflow_config_def)
  have f: "fst (processReview sample_world createDefaultFsrsState 3 (Some overflow_config))
             = Inr sample_reviewed"
    by (simp add: overflow_first_review)
  have n: "updateDifficulty_double (Num 4.93) (Num 1) (weights overflow_config) = NaN"
    unfolding w by (rule updateDifficulty_overflow)
  have "\<not> double_le (Num 1) NaN" by simp
  then have o: "\<not> (double_le (Num 1)
            (updateDifficulty_double (Num 4.93) (Num 1) (weights overflow_config))
          \<and> double_le (updateDifficulty_double (Num 4.93) (Num 1) (weights overflow_config))
              (Num 10))"
    unfolding n by simp
  show ?thesis using v f d n o by (intro conjI)
qed

lemma fst_raise_or_return:
  "fst (case x of Inl e \<Rightarrow> (Inl e, a) | Inr d \<Rightarrow> (Inr (f d), a)) =
     (case x of Inl e \<Rightarrow> Inl e | Inr d \<Rightarrow> Inr (f d))"
  by (cases x) simp_all

lemma processReview_clock_only:
  assumes "clock w1 (clock_reads w1) = clock w2 (clock_reads w2)"
  shows "fst (processReview w1 s g (Some c)) = fst (processReview w2 s g (Some c))"
  unfolding processReview_def Date_now_def Let_def prod.case option.case fst_raise_or_return
    assms
  by (rule refl)

lemma processReview_loads_config:
  "processReview w s g None =
     processReview (snd (loadConfig w)) s g (Some (fst (loadConfig w)))"
  unfolding processReview_def option.case
  by (cases "loadConfig w") (simp only: fst_conv snd_conv)

text \<open>
  C1, as the code has it. \<open>processReview\<close> takes no time argument: it reads the system
  clock once. Its result is a function of the state, the grade, the configuration and
  that clock reading; with a configuration supplied it changes nothing but the position
  of the clock; with none it first loads the configuration from the configuration file,
  which creates that file when it is missing.
\<close>

theorem processReview_function_of_clock_reading:
  "(clock w1 (clock_reads w1) = clock w2 (clock_reads w2) \<longrightarrow>
      fst (processReview w1 s g (Some c)) = fst (processReview w2 s g (Some c)))
   \<and> snd (processReview w s g (Some c)) = w\<lparr>clock_reads := Suc (clock_reads w)\<rparr>
   \<and> processReview w s g None =
       processReview (snd (loadConfig w)) s g (Some (fst (loadConfig w)))"
  using processReview_clock_only [of w1 w2 s g c] processReview_world [of w s g c]
    processReview_loads_config [of w s g]
  by blast

theorem processReview_function_of_clock_reading_witness:
  "clock sample_world (clock_reads sample_world)
     = clock (sample_world\<lparr>config_file := Some DEFAULT_CONFIG\<rparr>)
         (clock_reads (sample_world\<lparr>config_file := Some DEFAULT_CONFIG\<rparr>))
   \<and> fst (processReview sample_world createDefaultFsrsState 3 (Some DEFAULT_CONFIG))
       = fst (processReview (sample_world\<lparr>config_file := Some DEFAULT_CONFIG\<rparr>)
                createDefaultFsrsState 3 (Some DEFAULT_CONFIG))"
  using processReview_function_of_clock_reading
    [of sample_world "sample_world\<lparr>config_file := Some DEFAULT_CONFIG\<rparr>"
        createDefaultFsrsState 3 DEFAULT_CONFIG]
  by simp

text \<open>
  C1, as the claim states it, fails: two calls with identical arguments, one after the
  other, read different clock values and return different states; and a call without a
  configuration writes the configuration file.
\<close>

theorem processReview_pure_counterexample:
  "fst (processReview sample_world createDefaultFsrsState 3 (Some DEFAULT_CONFIG))
     \<noteq> fst (processReview
              (snd (processReview sample_world createDefaultFsrsState 3 (Some DEFAULT_CONFIG)))
              createDefaultFsrsState 3 (Some DEFAULT_CONFIG))
   \<and> config_file (snd (processReview sample_world createDefaultFsrsState 3 None))
       \<noteq> config_file sample_world"
proof -
  have "sample_reviewed
          \<noteq> sample_reviewed\<lparr>due := Some 1700207361000, last_reviewed := Some 1700000001000\<rparr>"
    by (simp add: sample_reviewed_def)
  moreover have "config_file sample_world = None" by (simp add: sample_world_def)
  ultimately show ?thesis
    using sample_second_review
    by (simp add: sample_first_review sample_review_without_config)
qed

section \<open>Priority ranking\<close>

text \<open>
  C2, as the code has it. For every world (so for every time), a topic whose scheduling
  state is present with tag \<open>new\<close> or with no due date gets priority 50, not overdue, no
  retrievability; a topic with no scheduling state gets priority 0, not overdue,
  retrievability 1.
\<close>

theorem calculatePriority_unscheduled:
  "(fsrs t = Some f \<and> (state f = New \<or> due f = None) \<longrightarrow>
      fst (calculatePriority w t) = unscheduled)
   \<and> (fsrs t = None \<longrightarrow>
        fst (calculatePriority w t) =
          \<lparr> priority = 0, isOverdue = False, res_retrievability = Some 1,
            daysOverdue = None, daysUntilDue = None \<rparr>)"
  by (auto simp add: calculatePriority_def Date_now_def Let_def unscheduled_def
      split: option.splits)

theorem calculatePriority_unscheduled_witness:
  "fsrs (sample_topic\<lparr>fsrs := Some createDefaultFsrsState\<rparr>) = Some createDefaultFsrsState
   \<and> state createDefaultFsrsState = New
   \<and> fst (calculatePriority sample_world (sample_topic\<lparr>fsrs := Some createDefaultFsrsState\<rparr>))
       = unscheduled
   \<and> fsrs sample_topic = None
   \<and> fst (calculatePriority sample_world sample_topic) =
        \<lparr> priority = 0, isOverdue = False, res_retrievability = Some 1,
          daysOverdue = None, daysUntilDue = None \<rparr>"
proof -
  have a: "fsrs (sample_topic\<lparr>fsrs := Some createDefaultFsrsState\<rparr>)
             = Some createDefaultFsrsState"
    by simp
  have b: "state createDefaultFsrsState = New" by (simp add: createDefaultFsrsState_def)
  have c: "fsrs sample_topic = None" by (simp add: sample_topic_def)
  show ?thesis
    using a b c
      calculatePriority_unscheduled
        [of "sample_topic\<lparr>fsrs := Some createDefaultFsrsState\<rparr>" createDefaultFsrsState
            sample_world]
      calculatePriority_unscheduled [of sample_topic createDefaultFsrsState sample_world]
    by simp
qed

text \<open>
  C2, as the claim states it, fails for a topic without scheduling state: the result is
  not the one of an unscheduled topic.
\<close>

theorem calculatePriority_absent_counterexample:
  "fsrs sample_topic = None
   \<and> fst (calculatePriority sample_world sample_topic) \<noteq>
        \<lparr> priority = 50, isOverdue = False, res_retrievability = None,
          daysOverdue = None, daysUntilDue = None \<rparr>
   \<and> priority (fst (calculatePriority sample_world sample_topic)) = 0
   \<and> res_retrievability (fst (calculatePriority sample_world sample_topic)) = Some 1"
  by (simp add: calculatePriority_def sample_topic_def)

section \<open>The \<open>log_review_outcome\<close> handler\<close>

text \<open>
  C9. A grade that is not one of the numbers 1, 2, 3, 4 is rejected at the boundary: the
  handler answers with the invalid-grade error and leaves the world as it was, so the
  engine is not invoked (the clock is not read) and no stored scheduling state changes.
\<close>

theorem invalid_grade_rejected:
  assumes "grade \<notin> {JNumber 1, JNumber 2, JNumber 3, JNumber 4}"
  shows "log_review_outcome w ident grade = (Inr (Invalid_grade grade), w)
         \<and> topics_file (snd (log_review_outcome w ident grade)) = topics_file w
         \<and> clock_reads (snd (log_review_outcome w ident grade)) = clock_reads w"
  using assms by (simp add: log_review_outcome_def)

theorem invalid_grade_rejected_witness:
  "JNumber 5 \<notin> {JNumber 1, JNumber 2, JNumber 3, JNumber 4}
   \<and> log_review_outcome (sample_world\<lparr>topics_file := [sample_topic]\<rparr>) ''t1'' (JNumber 5)
       = (Inr (Invalid_grade (JNumber 5)), sample_world\<lparr>topics_file := [sample_topic]\<rparr>)
   \<and> JString ''3'' \<notin> {JNumber 1, JNumber 2, JNumber 3, JNumber 4}
   \<and> log_review_outcome (sample_world\<lparr>topics_file := [sample_topic]\<rparr>) ''t1'' (JString ''3'')
       = (Inr (Invalid_grade (JString ''3'')), sample_world\<lparr>topics_file := [sample_topic]\<rparr>)"
proof -
  have a: "JNumber 5 \<notin> {JNumber 1, JNumber 2, JNumber 3, JNumber 4}" by simp
  have b: "JString ''3'' \<notin> {JNumber 1, JNumber 2, JNumber 3, JNumber 4}" by simp
  show ?thesis
    using a b
      invalid_grade_rejected [OF a, of "sample_world\<lparr>topics_file := [sample_topic]\<rparr>" "''t1''"]
      invalid_grade_rejected [OF b, of "sample_world\<lparr>topics_file := [sample_topic]\<rparr>" "''t1''"]
    by simp
qed

text \<open>
  For comparison, a valid grade on the same store: the handler backs the topics file up,
  runs the review and writes the new scheduling state.
\<close>

lemma sample_store_loadConfig: "loadConfig sample_store = (DEFAULT_CONFIG, sample_store)"
  by (simp add: loadConfig_def sample_store_def)

lemma sample_store_loadTopics:
  "loadTopics sample_store = (topics_file sample_store, sample_store)"
  by (simp add: loadTopics_def sample_store_def migrateTopic_def sample_topic_def Let_def)

lemma sample_store_findIndex:
  "findIndex (\<lambda>t. topic_id t = Some ''t1'') (topics_file sample_store) = Some 0"
  by (simp add: sample_store_def sample_topic_def)

lemma sample_store_createBackup: "createBackup sample_store = sample_backed_up"
  by (simp add: createBackup_def Date_now_def Let_def sample_backed_up_def sample_store_def
      sample_world_def MAX_BACKUPS_def)

lemma sample_backed_up_review:
  "processReview sample_backed_up createDefaultFsrsState 3 (Some DEFAULT_CONFIG) =
     (Inr (sample_reviewed\<lparr>due := Some 1700207361000, last_reviewed := Some 1700000001000\<rparr>),
      sample_backed_up\<lparr>clock_reads := 2\<rparr>)"
proof -
  have c: "clock sample_backed_up (clock_reads sample_backed_up)
             = clock (sample_world\<lparr>clock_reads := 1\<rparr>)
                 (clock_reads (sample_world\<lparr>clock_reads := 1\<rparr>))"
    by (simp add: sample_backed_up_def sample_store_def)
  have "fst (processReview sample_backed_up createDefaultFsrsState 3 (Some DEFAULT_CONFIG))
          = Inr (sample_reviewed
                  \<lparr>due := Some 1700207361000, last_reviewed := Some 1700000001000\<rparr>)"
    using processReview_clock_only [OF c, of createDefaultFsrsState 3 DEFAULT_CONFIG]
      sample_second_review
    by simp
  moreover have "snd (processReview sample_backed_up createDefaultFsrsState 3
                       (Some DEFAULT_CONFIG)) = sample_backed_up\<lparr>clock_reads := 2\<rparr>"
    by (simp add: processReview_world sample_backed_up_def)
  ultimately show ?thesis
    by (simp add: prod_eq_iff)
qed

lemma sample_valid_grade_logged:
  "log_review_outcome sample_store ''t1'' (JNumber 3) =
     (Inr (Review_logged
             (sample_topic\<lparr>fsrs := Some (sample_reviewed
                \<lparr>due := Some 1700207361000, last_reviewed := Some 1700000001000\<rparr>)\<rparr>)
             (JNumber 3)),
      sample_backed_up
        \<lparr>clock_reads := 2,
          topics_file :=
            [sample_topic\<lparr>fsrs := Some (sample_reviewed
               \<lparr>due := Some 1700207361000, last_reviewed := Some 1700000001000\<rparr>)\<rparr>]\<rparr>)"
proof -
  have t: "topics_file sample_store ! 0 = sample_topic\<lparr>fsrs := Some createDefaultFsrsState\<rparr>"
    "(topics_file sample_store)[0 := x] = [x]" for x
    by (simp_all add: sample_store_def)
  show ?thesis
    by (simp add: log_review_outcome_def updateTopic_def sample_store_loadConfig
        sample_store_loadTopics sample_store_findIndex sample_store_createBackup
        sample_backed_up_review atomicWriteTopics_def t)
qed


end
